theory Spec2Isabelle
  imports Main
begin

section \<open>Log parsing of the geometry-optimization notebook\<close>

text \<open>
  The notebook \<^verbatim>\<open>qm_lab3_geometry_optimization.ipynb\<close> defines two functions of its own,
  \<^verbatim>\<open>plot_R\<close> and \<^verbatim>\<open>plot_energy\<close>. Both open the file
  \<^verbatim>\<open>molecule_name + '_geometry_optimization.dat'\<close>, iterate over its lines and read
  numbers from fixed whitespace fields. This theory embeds the two functions together with
  the string methods they call, and settles the properties stated about them.

  Python exceptions are values of the type \<open>error\<close>; a function that can raise returns
  \<open>error + 'a\<close>, \<open>Inl\<close> carrying the exception. \<open>OSError\<close> stands for an OSError of no
  more specific class.
\<close>

datatype error =
    FileNotFoundError | NotADirectoryError | IsADirectoryError | PermissionError | OSError
  | IndexError | ValueError

subsection \<open>The string methods used by the notebook\<close>

text \<open>
  Strings are lists of 8-bit characters, read as the code points 0 to 255.
  \<^verbatim>\<open>str.strip()\<close> and \<^verbatim>\<open>str.split()\<close> without argument treat as whitespace the code
  points for which \<^verbatim>\<open>str.isspace\<close> holds; below 256 these are 9 to 13, 28 to 32, 133 and 160.
\<close>

definition isspace :: "char \<Rightarrow> bool" where
  "isspace c = (c \<in> set [CHR 0x09, CHR 0x0A, CHR 0x0B, CHR 0x0C, CHR 0x0D,
                          CHR 0x1C, CHR 0x1D, CHR 0x1E, CHR 0x1F, CHR 0x20,
                          CHR 0x85, CHR 0xA0])"

text \<open>\<^verbatim>\<open>s.startswith(p)\<close>\<close>

fun startswith :: "string \<Rightarrow> string \<Rightarrow> bool" where
  "startswith s [] = True"
| "startswith [] (p # ps) = False"
| "startswith (c # cs) (p # ps) = (c = p \<and> startswith cs ps)"

text \<open>\<^verbatim>\<open>s.find(sub)\<close>: the lowest index at which \<open>sub\<close> occurs in \<open>s\<close>, or \<open>-1\<close>.\<close>

fun str_find :: "string \<Rightarrow> string \<Rightarrow> int" where
  "str_find [] sub = (if sub = [] then 0 else - 1)"
| "str_find (c # cs) sub =
     (if startswith (c # cs) sub then 0
      else (let r = str_find cs sub in if r < 0 then - 1 else r + 1))"

text \<open>\<^verbatim>\<open>s.strip()\<close>: leading and trailing whitespace removed.\<close>

definition strip :: "string \<Rightarrow> string" where
  "strip s = rev (dropWhile isspace (rev (dropWhile isspace s)))"

text \<open>
  \<^verbatim>\<open>s.split()\<close>: the maximal runs of non-whitespace characters, in order. The scan keeps
  the field it is reading in \<open>word\<close> and closes it at the next whitespace character or at
  the end of the string.
\<close>

fun split_from :: "string \<Rightarrow> string \<Rightarrow> string list" where
  "split_from word [] = (if word = [] then [] else [word])"
| "split_from word (c # cs) =
     (if isspace c then (if word = [] then split_from [] cs else word # split_from [] cs)
      else split_from (word @ [c]) cs)"

definition str_split :: "string \<Rightarrow> string list" where
  "str_split s = split_from [] s"

text \<open>\<^verbatim>\<open>str(n)\<close> for an integer: its decimal digits, after a minus sign when negative.\<close>

fun str_nat :: "nat \<Rightarrow> string" where
  "str_nat n =
     (if n < 10 then [''0123456789'' ! n]
      else str_nat (n div 10) @ [''0123456789'' ! (n mod 10)])"

declare str_nat.simps [simp del]

definition str :: "int \<Rightarrow> string" where
  "str i = (if i < 0 then CHR ''-'' # str_nat (nat (- i)) else str_nat (nat i))"

subsection \<open>The built-in \<^verbatim>\<open>float\<close> on strings\<close>

text \<open>
  \<^verbatim>\<open>plot_R\<close> and \<^verbatim>\<open>plot_energy\<close> are parametric in \<^verbatim>\<open>float\<close>, and the general
  theorems hold for every conversion. To run the two functions on concrete logs,
  \<open>float_literal\<close> follows the grammar that \<^verbatim>\<open>float\<close> accepts on a string: surrounding
  whitespace (for \<^verbatim>\<open>float\<close> the code points 9 to 13, 32, 133 and 160), an optional sign,
  then \<^verbatim>\<open>inf\<close>, \<^verbatim>\<open>infinity\<close> or \<^verbatim>\<open>nan\<close> in any case, or digits with an optional point
  and an optional exponent, at least one digit before the exponent; single underscores may
  stand between two digits. Its value is the number the literal denotes, as sign, decimal
  mantissa and power of ten, before the rounding to binary64.
\<close>

datatype pyfloat = Finite bool nat int | Infinity bool | NaN

definition isdigit :: "char \<Rightarrow> bool" where
  "isdigit c = (c \<in> set ''0123456789'')"

definition digit_value :: "char \<Rightarrow> nat" where
  "digit_value c = length (takeWhile (\<lambda>d. d \<noteq> c) ''0123456789'')"

definition digits_value :: "string \<Rightarrow> nat" where
  "digits_value ds = foldl (\<lambda>n c. 10 * n + digit_value c) 0 ds"

definition lower :: "char \<Rightarrow> char" where
  "lower c = (case map_of (zip ''ABCDEFGHIJKLMNOPQRSTUVWXYZ'' ''abcdefghijklmnopqrstuvwxyz'') c of
                None \<Rightarrow> c | Some l \<Rightarrow> l)"

fun without_underscores :: "char \<Rightarrow> string \<Rightarrow> string option" where
  "without_underscores prev [] = (if prev = CHR ''_'' then None else Some [])"
| "without_underscores prev (c # cs) =
     (if c = CHR ''_'' then (if isdigit prev then without_underscores c cs else None)
      else if prev = CHR ''_'' \<and> \<not> isdigit c then None
      else map_option ((#) c) (without_underscores c cs))"

definition take_sign :: "string \<Rightarrow> bool \<times> string" where
  "take_sign s =
     (case s of
        [] \<Rightarrow> (False, [])
      | c # cs \<Rightarrow> if c = CHR ''-'' then (True, cs) else if c = CHR ''+'' then (False, cs)
                 else (False, s))"

definition float_number :: "bool \<Rightarrow> string \<Rightarrow> pyfloat option" where
  "float_number neg s =
     (let ip = takeWhile isdigit s; r1 = dropWhile isdigit s;
          fp = (case r1 of [] \<Rightarrow> [] | c # cs \<Rightarrow> if c = CHR ''.'' then takeWhile isdigit cs else []);
          r2 = (case r1 of [] \<Rightarrow> [] | c # cs \<Rightarrow> if c = CHR ''.'' then dropWhile isdigit cs else r1);
          m = digits_value (ip @ fp)
      in if ip = [] \<and> fp = [] then None
         else (case r2 of
                 [] \<Rightarrow> Some (Finite neg m (- int (length fp)))
               | e # r3 \<Rightarrow>
                   if e = CHR ''e'' \<or> e = CHR ''E''
                   then (let (eneg, ds) = take_sign r3
                         in if ds \<noteq> [] \<and> list_all isdigit ds
                            then Some (Finite neg m
                                   ((if eneg then - int (digits_value ds) else int (digits_value ds))
                                    - int (length fp)))
                            else None)
                   else None))"

definition float_space :: "char \<Rightarrow> bool" where
  "float_space c = (c \<in> set [CHR 0x09, CHR 0x0A, CHR 0x0B, CHR 0x0C, CHR 0x0D, CHR 0x20,
                              CHR 0x85, CHR 0xA0])"

definition float_literal :: "string \<Rightarrow> pyfloat option" where
  "float_literal s =
     (case without_underscores (CHR 0x00)
             (rev (dropWhile float_space (rev (dropWhile float_space s)))) of
        None \<Rightarrow> None
      | Some t \<Rightarrow>
          (let (neg, u) = take_sign t; l = map lower u
           in if l = ''inf'' \<or> l = ''infinity'' then Some (Infinity neg)
              else if l = ''nan'' then Some NaN
              else float_number neg u))"

subsection \<open>The file\<close>

text \<open>
  \<^verbatim>\<open>open(path)\<close> on a POSIX system. The file system is a tree of directories and
  regular files. A regular file carries whether the process may read it and its text, as
  the text layer of \<^verbatim>\<open>open\<close> delivers it (decoded, line ends translated to the newline
  character). A directory carries whether the process may read it, whether it may search
  it, and its entries by name. Symbolic links and special files are not described. The
  state of the system holds the root directory, the names that lead from the root to the
  working directory, whether the process is privileged (then no permission is checked),
  whether a file descriptor is left for it, and the two limits of the system: the longest
  name of an entry and the length a path must stay below, both in bytes. Failures of the
  hardware and of memory are not described.
\<close>

datatype node = File bool string | Dir bool bool "(string \<times> node) list"

datatype filesystem =
  Filesystem (root: node) (cwd: "string list") (privileged: bool) (descriptor_free: bool)
    (name_max: nat) (path_max: nat)

text \<open>
  The length of a name in bytes: names are passed to the system in UTF-8, where a code
  point from 128 to 255 takes two bytes.
\<close>

definition fs_bytes :: "string \<Rightarrow> nat" where
  "fs_bytes s = length s + length (filter digit7 s)"

text \<open>The names of a path: what stands between its slashes, empty names left out.\<close>

fun components_from :: "string \<Rightarrow> string \<Rightarrow> string list" where
  "components_from name [] = (if name = [] then [] else [name])"
| "components_from name (c # cs) =
     (if c = CHR ''/'' then (if name = [] then components_from [] cs
                            else name # components_from [] cs)
      else components_from (name @ [c]) cs)"

definition components :: "string \<Rightarrow> string list" where
  "components path = components_from [] path"

text \<open>
  The directory a path starts from: the root for a path that begins with a slash, the
  working directory otherwise. A position in the tree is the list of the nodes from the
  current one up to the root. \<open>locate\<close> finds the position of the working directory and
  checks nothing: the process is already there.
\<close>

fun locate :: "node list \<Rightarrow> string list \<Rightarrow> node list option" where
  "locate position [] = Some position"
| "locate [] (name # names) = None"
| "locate (File readable content # parents) (name # names) = None"
| "locate (Dir readable searchable entries # parents) (name # names) =
     (case map_of entries name of
        None \<Rightarrow> None
      | Some child \<Rightarrow> locate (child # Dir readable searchable entries # parents) names)"

definition start_position :: "filesystem \<Rightarrow> string \<Rightarrow> node list option" where
  "start_position fs path =
     (if startswith path ''/'' then Some [root fs] else locate [root fs] (cwd fs))"

text \<open>
  The walk along the names of a path. Each name is looked up in the current node: a
  regular file there gives ENOTDIR, a directory that the process may not search EACCES;
  \<^verbatim>\<open>.\<close> stays, \<^verbatim>\<open>..\<close> goes up (the root is its own parent); a name beyond the limit
  gives ENAMETOOLONG, a name without entry ENOENT. Python raises these as
  NotADirectoryError, PermissionError, OSError and FileNotFoundError.
\<close>

fun walk :: "bool \<Rightarrow> nat \<Rightarrow> node list \<Rightarrow> string list \<Rightarrow> error + node list" where
  "walk priv nmax position [] = Inr position"
| "walk priv nmax [] (name # names) = Inl FileNotFoundError"
| "walk priv nmax (File readable content # parents) (name # names) = Inl NotADirectoryError"
| "walk priv nmax (Dir readable searchable entries # parents) (name # names) =
     (if \<not> (searchable \<or> priv) then Inl PermissionError
      else if name = ''.'' then walk priv nmax (Dir readable searchable entries # parents) names
      else if name = ''..''
        then walk priv nmax
               (if parents = [] then [Dir readable searchable entries] else parents) names
      else if nmax < fs_bytes name then Inl OSError
      else (case map_of entries name of
              None \<Rightarrow> Inl FileNotFoundError
            | Some child \<Rightarrow>
                walk priv nmax (child # Dir readable searchable entries # parents) names))"

text \<open>
  \<^verbatim>\<open>open(path)\<close> for reading, in text mode. A NUL character in the path is refused by
  Python with ValueError before the system is asked. The system refuses the empty path
  (ENOENT) and a path of \<open>path_max\<close> bytes or more (ENAMETOOLONG), then takes a file
  descriptor (EMFILE or ENFILE when none is left, an OSError), then walks the path.
  A regular file at the end is opened when the process may read it, unless the path ends
  with a slash; a directory at the end gives IsADirectoryError, or PermissionError when
  the process may not read it.
\<close>

definition open_file :: "filesystem \<Rightarrow> string \<Rightarrow> error + string" where
  "open_file fs path =
     (if CHR 0x00 \<in> set path then Inl ValueError
      else if path = [] then Inl FileNotFoundError
      else if path_max fs \<le> fs_bytes path then Inl OSError
      else if \<not> descriptor_free fs then Inl OSError
      else (case start_position fs path of
              None \<Rightarrow> Inl FileNotFoundError
            | Some start \<Rightarrow>
                (case walk (privileged fs) (name_max fs) start (components path) of
                   Inl e \<Rightarrow> Inl e
                 | Inr [] \<Rightarrow> Inl FileNotFoundError
                 | Inr (File readable content # parents) \<Rightarrow>
                     if startswith (rev path) ''/'' then Inl NotADirectoryError
                     else if readable \<or> privileged fs then Inr content
                     else Inl PermissionError
                 | Inr (Dir readable searchable entries # parents) \<Rightarrow>
                     if readable \<or> privileged fs then Inl IsADirectoryError
                     else Inl PermissionError)))"

text \<open>
  Iterating over the open file yields its lines, each with its newline character; only
  the last line can lack one.
\<close>

fun file_lines :: "string \<Rightarrow> string list" where
  "file_lines [] = []"
| "file_lines (c # cs) =
     (if c = CHR 0x0A then [c] # file_lines cs
      else (case file_lines cs of [] \<Rightarrow> [[c]] | l # ls \<Rightarrow> (c # l) # ls))"

definition optimization_file :: "string \<Rightarrow> string" where
  "optimization_file molecule_name = molecule_name @ ''_geometry_optimization.dat''"

subsection \<open>\<^verbatim>\<open>plot_R\<close>\<close>

text \<open>
  \<^verbatim>\<open>
  def plot_R(a, b):
      with open(molecule_name + '_geometry_optimization.dat') as f:
          pair_notation = 'R(' + str(a) + ',' + str(b) + ')'
          rows_with_R_pairs = [line.split() for line in f if line.find(pair_notation) > 1 and
                               line.strip().split()[1].startswith(pair_notation)]
          bond_distances = []
          bond_distances.append(float(rows_with_R_pairs[0][3]))
          for item in rows_with_R_pairs:
              bond_distances.append(float(item[6]))
          return bond_distances
  \<close>
  The global \<^verbatim>\<open>molecule_name\<close> and the file system are arguments of the model; an
  error of \<^verbatim>\<open>open\<close> leaves the function as it is. So is
  \<^verbatim>\<open>float\<close>, Python's built-in conversion: \<open>float s = None\<close> stands for the ValueError it
  raises on a string that is no number. Indexing a list out of range raises IndexError.
\<close>

definition pair_notation :: "int \<Rightarrow> int \<Rightarrow> string" where
  "pair_notation a b = ''R('' @ str a @ '','' @ str b @ '')''"

text \<open>
  The condition of the comprehension on one line. \<^verbatim>\<open>and\<close> evaluates its right operand
  only when the left one holds; the right operand reads field 1 of the stripped line.
\<close>

definition row_test :: "string \<Rightarrow> string \<Rightarrow> error + bool" where
  "row_test pn line =
     (if 1 < str_find line pn
      then (let fields = str_split (strip line)
            in if 1 < length fields then Inr (startswith (fields ! 1) pn)
               else Inl IndexError)
      else Inr False)"

fun rows_with_R_pairs :: "string \<Rightarrow> string list \<Rightarrow> error + string list list" where
  "rows_with_R_pairs pn [] = Inr []"
| "rows_with_R_pairs pn (line # lines) =
     (case row_test pn line of
        Inl e \<Rightarrow> Inl e
      | Inr keep \<Rightarrow>
          (case rows_with_R_pairs pn lines of
             Inl e \<Rightarrow> Inl e
           | Inr rows \<Rightarrow> Inr (if keep then str_split line # rows else rows)))"

text \<open>The \<^verbatim>\<open>for\<close> loop, appending to \<^verbatim>\<open>bond_distances\<close>.\<close>

fun append_distances ::
  "(string \<Rightarrow> 'v option) \<Rightarrow> 'v list \<Rightarrow> string list list \<Rightarrow> error + 'v list" where
  "append_distances float bond_distances [] = Inr bond_distances"
| "append_distances float bond_distances (item # items) =
     (if length item \<le> 6 then Inl IndexError
      else (case float (item ! 6) of
              None \<Rightarrow> Inl ValueError
            | Some d \<Rightarrow> append_distances float (bond_distances @ [d]) items))"

definition plot_R ::
  "(string \<Rightarrow> 'v option) \<Rightarrow> filesystem \<Rightarrow> string \<Rightarrow> int \<Rightarrow> int \<Rightarrow> error + 'v list" where
  "plot_R float fs molecule_name a b =
     (case open_file fs (optimization_file molecule_name) of
        Inl e \<Rightarrow> Inl e
      | Inr log \<Rightarrow>
          (case rows_with_R_pairs (pair_notation a b) (file_lines log) of
             Inl e \<Rightarrow> Inl e
           | Inr rows \<Rightarrow>
               (case rows of
                  [] \<Rightarrow> Inl IndexError
                | row0 # _ \<Rightarrow>
                    if length row0 \<le> 3 then Inl IndexError
                    else (case float (row0 ! 3) of
                            None \<Rightarrow> Inl ValueError
                          | Some d0 \<Rightarrow> append_distances float [d0] rows))))"

subsection \<open>\<^verbatim>\<open>plot_energy\<close>\<close>

text \<open>
  \<^verbatim>\<open>
  def plot_energy():
      with open(molecule_name + '_geometry_optimization.dat') as f:
          energy_values = [ float(line.split()[3]) for line in f
                            if line.strip().startswith('Current energy') ]
          return energy_values
  \<close>
\<close>

fun energy_values :: "(string \<Rightarrow> 'v option) \<Rightarrow> string list \<Rightarrow> error + 'v list" where
  "energy_values float [] = Inr []"
| "energy_values float (line # lines) =
     (if startswith (strip line) ''Current energy''
      then (let fields = str_split line
            in if length fields \<le> 3 then Inl IndexError
               else (case float (fields ! 3) of
                       None \<Rightarrow> Inl ValueError
                     | Some v \<Rightarrow>
                         (case energy_values float lines of
                            Inl e \<Rightarrow> Inl e
                          | Inr vs \<Rightarrow> Inr (v # vs))))
      else energy_values float lines)"

definition plot_energy ::
  "(string \<Rightarrow> 'v option) \<Rightarrow> filesystem \<Rightarrow> string \<Rightarrow> error + 'v list" where
  "plot_energy float fs molecule_name =
     (case open_file fs (optimization_file molecule_name) of
        Inl e \<Rightarrow> Inl e
      | Inr log \<Rightarrow> energy_values float (file_lines log))"

subsection \<open>Example logs\<close>

text \<open>
  Lines in the layout of the optimizer's log, and files made of them: a log of two
  optimization steps, a log with a line of a single field, a log whose energy line carries
  text in place of the number, and a log whose last energy line is cut short. The four
  files stand in the working directory \<^verbatim>\<open>/lab\<close> of an unprivileged process, on a system
  with names of up to 255 bytes and paths below 4096 bytes.
\<close>

definition header_line :: string where
  "header_line = CHR 0x09 # '' Coordinate Previous Force Change New\<newline>''"
definition first_R12_line :: string where
  "first_R12_line = CHR 0x09 # '' 1 R(1,2) = 1.510 0.004 0.000 1.510\<newline>''"
definition R13_line :: string where
  "R13_line = CHR 0x09 # '' 2 R(1,3) = 2.401 0.001 -0.012 2.389\<newline>''"
definition frozen_line :: string where
  "frozen_line = CHR 0x09 # '' Frozen coordinate: R(2,3)\<newline>''"
definition first_energy_line :: string where
  "first_energy_line = CHR 0x09 # ''Current energy   :  -230.712451\<newline>''"
definition second_R12_line :: string where
  "second_R12_line = CHR 0x09 # '' 1 R(1,2) = 1.510 0.021 -0.115 1.395\<newline>''"
definition second_energy_line :: string where
  "second_energy_line = CHR 0x09 # ''Current energy   :  -230.713021\<newline>''"

definition benzene_log :: string where
  "benzene_log = concat [header_line, first_R12_line, R13_line, frozen_line, first_energy_line,
     second_R12_line, second_energy_line]"

definition one_field_line :: string where
  "one_field_line = ''  xR(1,2)\<newline>''"
definition truncated_log :: string where
  "truncated_log = concat [first_R12_line, one_field_line]"

definition bad_number_line :: string where
  "bad_number_line = ''Current energy = abc\<newline>''"
definition short_energy_line :: string where
  "short_energy_line = ''Current energy =\<newline>''"
definition garbled_log :: string where
  "garbled_log = concat [bad_number_line, short_energy_line]"
definition cut_log :: string where
  "cut_log = concat [first_energy_line, short_energy_line]"

definition lab_entries :: "(string \<times> node) list" where
  "lab_entries =
     [(''benzene_geometry_optimization.dat'', File True benzene_log),
      (''nitrobenzene_geometry_optimization.dat'', File True truncated_log),
      (''ethane_geometry_optimization.dat'', File True garbled_log),
      (''methane_geometry_optimization.dat'', File True cut_log)]"

definition example_fs :: filesystem where
  "example_fs =
     Filesystem (Dir True True [(''lab'', Dir True True lab_entries)]) [''lab''] False True
       255 4096"



definition token_first_line :: string where
  "token_first_line = ''R(1,2) R(1,2) = 1.510 0.004 0.000 1.510\<newline>''"

section \<open>Properties of the string methods\<close>

text \<open>
  \<open>str_find\<close> returns the first position at which the text occurs, and \<open>- 1\<close> exactly
  when it occurs nowhere; the fields of \<open>str_split\<close> are non-empty and free of whitespace,
  and stripping a line first does not change them; the lines of a file put together give
  its text back.
\<close>

lemma startswith_Nil [simp]: "startswith [] p \<longleftrightarrow> p = []"
  by (cases p) simp_all

lemma startswith_take: "startswith s p \<longleftrightarrow> take (length p) s = p"
  by (induction s p rule: startswith.induct) auto

lemma str_find_lower: "- 1 \<le> str_find s sub"
  by (induction s) (simp_all add: Let_def)

lemma str_find_first:
  "str_find s sub = int n \<longleftrightarrow>
     n \<le> length s \<and> startswith (drop n s) sub \<and> (\<forall>m<n. \<not> startswith (drop m s) sub)"
proof (induction s arbitrary: n)
  case Nil
  show ?case by auto
next
  case (Cons c cs)
  show ?case
  proof (cases "startswith (c # cs) sub")
    case True
    then show ?thesis by (cases n) auto
  next
    case False
    show ?thesis
    proof (cases n)
      case 0
      with False str_find_lower [of cs sub] show ?thesis by (simp add: Let_def)
    next
      case (Suc k)
      have "(\<forall>m<Suc k. \<not> startswith (drop m (c # cs)) sub) \<longleftrightarrow>
            (\<forall>m<k. \<not> startswith (drop m cs) sub)"
        using False by (auto simp add: less_Suc_eq_0_disj)
      with False Suc Cons.IH [of k] str_find_lower [of cs sub] show ?thesis
        by (auto simp add: Let_def)
    qed
  qed
qed

lemma str_find_absent:
  "str_find s sub = - 1 \<longleftrightarrow> (\<forall>n\<le>length s. \<not> startswith (drop n s) sub)"
proof (induction s)
  case Nil
  show ?case by simp
next
  case (Cons c cs)
  have "(\<forall>n\<le>length (c # cs). \<not> startswith (drop n (c # cs)) sub) \<longleftrightarrow>
        \<not> startswith (c # cs) sub \<and> (\<forall>n\<le>length cs. \<not> startswith (drop n cs) sub)"
  proof
    assume all: "\<forall>n\<le>length (c # cs). \<not> startswith (drop n (c # cs)) sub"
    then have "\<not> startswith (drop 0 (c # cs)) sub" by blast
    moreover have "\<not> startswith (drop n cs) sub" if "n \<le> length cs" for n
      using all that by (auto dest: spec [of _ "Suc n"])
    ultimately show "\<not> startswith (c # cs) sub \<and> (\<forall>n\<le>length cs. \<not> startswith (drop n cs) sub)"
      by simp
  next
    assume rhs: "\<not> startswith (c # cs) sub \<and> (\<forall>n\<le>length cs. \<not> startswith (drop n cs) sub)"
    show "\<forall>n\<le>length (c # cs). \<not> startswith (drop n (c # cs)) sub"
    proof (intro allI impI)
      fix n assume "n \<le> length (c # cs)"
      with rhs show "\<not> startswith (drop n (c # cs)) sub" by (cases n) auto
    qed
  qed
  with Cons str_find_lower [of cs sub] show ?case
    by (auto simp add: Let_def)
qed

lemma str_find_after_one:
  "1 < str_find s sub \<longleftrightarrow>
     (\<exists>n\<ge>2. n \<le> length s \<and> startswith (drop n s) sub \<and> (\<forall>m<n. \<not> startswith (drop m s) sub))"
proof
  assume "1 < str_find s sub"
  then have "str_find s sub = int (nat (str_find s sub))" "2 \<le> nat (str_find s sub)" by simp_all
  with str_find_first [of s sub "nat (str_find s sub)"] show
    "\<exists>n\<ge>2. n \<le> length s \<and> startswith (drop n s) sub \<and> (\<forall>m<n. \<not> startswith (drop m s) sub)"
    by blast
next
  assume "\<exists>n\<ge>2. n \<le> length s \<and> startswith (drop n s) sub \<and> (\<forall>m<n. \<not> startswith (drop m s) sub)"
  then obtain n where "2 \<le> n" "str_find s sub = int n"
    using str_find_first [of s sub] by blast
  then show "1 < str_find s sub" by simp
qed

lemma str_find_at_start:
  assumes "startswith s sub \<or> startswith (drop 1 s) sub"
  shows "str_find s sub \<le> 1"
proof (rule ccontr)
  assume "\<not> str_find s sub \<le> 1"
  then have "1 < str_find s sub" by simp
  then obtain n where "2 \<le> n" "\<forall>m<n. \<not> startswith (drop m s) sub"
    unfolding str_find_after_one by blast
  then have "0 < n" "1 < n" and none: "\<And>m. m < n \<Longrightarrow> \<not> startswith (drop m s) sub"
    by simp_all
  from none [of 0] none [of 1] \<open>0 < n\<close> \<open>1 < n\<close> assms show False by simp
qed

lemma split_from_leading: "split_from [] (dropWhile isspace s) = split_from [] s"
  by (induction s) simp_all

lemma split_from_trailing_char: "isspace c \<Longrightarrow> split_from word (s @ [c]) = split_from word s"
  by (induction s arbitrary: word) simp_all

lemma split_from_trailing: "split_from word (rev (dropWhile isspace (rev s))) = split_from word s"
  by (induction s rule: rev_induct) (simp_all add: split_from_trailing_char)

lemma str_split_strip: "str_split (strip s) = str_split s"
  by (simp add: str_split_def strip_def split_from_trailing split_from_leading)

lemma split_from_fields:
  assumes "\<forall>c\<in>set word. \<not> isspace c" and "f \<in> set (split_from word s)"
  shows "f \<noteq> [] \<and> (\<forall>c\<in>set f. \<not> isspace c)"
  using assms
proof (induction s arbitrary: word)
  case Nil
  then show ?case by (auto split: if_splits)
next
  case (Cons a s)
  show ?case
  proof (cases "isspace a")
    case True
    with Cons.prems consider "f = word" "word \<noteq> []" | "f \<in> set (split_from [] s)"
      by (auto split: if_splits)
    then show ?thesis
    proof cases
      case 1
      with Cons.prems(1) show ?thesis by simp
    next
      case 2
      with Cons.IH [of "[]"] show ?thesis by simp
    qed
  next
    case False
    with Cons.prems have "f \<in> set (split_from (word @ [a]) s)" "\<forall>c\<in>set (word @ [a]). \<not> isspace c"
      by auto
    with Cons.IH [of "word @ [a]"] show ?thesis by blast
  qed
qed

lemma str_split_fields: "f \<in> set (str_split s) \<Longrightarrow> f \<noteq> [] \<and> (\<forall>c\<in>set f. \<not> isspace c)"
  using split_from_fields [of "[]" f s] by (simp add: str_split_def)

lemma concat_file_lines: "concat (file_lines s) = s"
  by (induction s) (auto split: list.splits)

lemma file_lines_nonempty: "l \<in> set (file_lines s) \<Longrightarrow> l \<noteq> []"
  by (induction s arbitrary: l) (auto split: if_splits list.splits)

section \<open>Opening the file\<close>





section \<open>The comprehensions and the loop\<close>

text \<open>
  The condition of \<^verbatim>\<open>plot_R\<close>'s comprehension can only raise IndexError. When it raises
  on no line, the comprehension is a filter followed by a map; when it raises on some
  line, the comprehension raises.
\<close>

lemma row_test_error: "row_test pn l = Inl e \<Longrightarrow> e = IndexError"
  by (simp add: row_test_def Let_def split: if_splits)

lemma row_test_cases:
  obtains (fails) "row_test pn l = Inl IndexError" | (decides) keep where "row_test pn l = Inr keep"
proof (cases "row_test pn l")
  case (Inl e)
  with row_test_error [of pn l e] fails show ?thesis by simp
next
  case (Inr keep)
  with decides show ?thesis .
qed

lemma rows_with_R_pairs_filter:
  assumes "\<forall>l\<in>set ls. row_test pn l \<noteq> Inl IndexError"
  shows "rows_with_R_pairs pn ls = Inr (map str_split (filter (\<lambda>l. row_test pn l = Inr True) ls))"
  using assms
proof (induction ls)
  case Nil
  show ?case by simp
next
  case (Cons l ls)
  from Cons.prems obtain keep where "row_test pn l = Inr keep"
    by (cases pn l rule: row_test_cases) auto
  with Cons show ?case by simp
qed

lemma rows_with_R_pairs_fails:
  assumes "l \<in> set ls" and "row_test pn l = Inl IndexError"
  shows "rows_with_R_pairs pn ls = Inl IndexError"
  using assms
proof (induction ls)
  case Nil
  then show ?case by simp
next
  case (Cons k ls)
  show ?case
  proof (cases pn k rule: row_test_cases)
    case fails
    then show ?thesis by simp
  next
    case (decides keep)
    with Cons.prems have "l \<in> set ls" by auto
    with Cons have "rows_with_R_pairs pn ls = Inl IndexError" by simp
    with decides show ?thesis by simp
  qed
qed

lemma rows_with_R_pairs_no_match:
  assumes "filter (\<lambda>l. row_test pn l = Inr True) ls = []"
  shows "rows_with_R_pairs pn ls = Inr [] \<or> rows_with_R_pairs pn ls = Inl IndexError"
proof (cases "\<forall>l\<in>set ls. row_test pn l \<noteq> Inl IndexError")
  case True
  from rows_with_R_pairs_filter [OF True] assms show ?thesis by simp
next
  case False
  then obtain l where "l \<in> set ls" "row_test pn l = Inl IndexError" by auto
  then show ?thesis by (simp add: rows_with_R_pairs_fails)
qed

lemma rows_with_R_pairs_none:
  assumes "\<forall>l\<in>set ls. row_test pn l = Inr False"
  shows "rows_with_R_pairs pn ls = Inr []"
  using assms by (induction ls) simp_all

text \<open>The loop appends one value for each row, in order.\<close>

lemma append_distances_map:
  assumes "\<forall>item\<in>set items. 6 < length item"
    and "map (\<lambda>item. float (item ! 6)) items = map Some ds"
  shows "append_distances float acc items = Inr (acc @ ds)"
  using assms
proof (induction items arbitrary: acc ds)
  case Nil
  then show ?case by simp
next
  case (Cons item items)
  from Cons.prems(2) obtain d ds' where ds: "ds = d # ds'" "float (item ! 6) = Some d"
    "map (\<lambda>item. float (item ! 6)) items = map Some ds'"
    by (cases ds) auto
  from Cons.prems(1) have len: "6 < length item" "\<forall>item\<in>set items. 6 < length item" by auto
  from Cons.IH [OF len(2) ds(3)] ds len show ?case by simp
qed

text \<open>
  \<^verbatim>\<open>plot_energy\<close>'s comprehension: one value for each line that passes the test, in
  order; a line that passes the test and is too short raises IndexError, unless an earlier
  line already raised.
\<close>

lemma energy_values_map:
  assumes "\<forall>l\<in>set (filter (\<lambda>l. startswith (strip l) ''Current energy'') ls). 3 < length (str_split l)"
    and "map (\<lambda>l. float (str_split l ! 3)) (filter (\<lambda>l. startswith (strip l) ''Current energy'') ls)
         = map Some vs"
  shows "energy_values float ls = Inr vs"
  using assms
proof (induction ls arbitrary: vs)
  case Nil
  then show ?case by simp
next
  case (Cons l ls)
  show ?case
  proof (cases "startswith (strip l) ''Current energy''")
    case False
    with Cons show ?thesis by simp
  next
    case True
    with Cons.prems(2) obtain v vs' where vs: "vs = v # vs'" "float (str_split l ! 3) = Some v"
      "map (\<lambda>l. float (str_split l ! 3)) (filter (\<lambda>l. startswith (strip l) ''Current energy'') ls)
       = map Some vs'"
      by (cases vs) auto
    from Cons.prems(1) True have len: "3 < length (str_split l)"
      "\<forall>l\<in>set (filter (\<lambda>l. startswith (strip l) ''Current energy'') ls). 3 < length (str_split l)"
      by auto
    from Cons.IH [OF len(2) vs(3)] True vs len show ?thesis by simp
  qed
qed

lemma energy_values_short_line:
  assumes "\<forall>l\<in>set before. startswith (strip l) ''Current energy'' \<and> 3 < length (str_split l)
             \<longrightarrow> float (str_split l ! 3) \<noteq> None"
    and "startswith (strip line) ''Current energy''" and "length (str_split line) < 4"
  shows "energy_values float (before @ line # after) = Inl IndexError"
  using assms
proof (induction before)
  case Nil
  then show ?case by (simp add: Let_def)
next
  case (Cons l before)
  then have IH: "energy_values float (before @ line # after) = Inl IndexError" by simp
  show ?case
  proof (cases "startswith (strip l) ''Current energy'' \<and> 3 < length (str_split l)")
    case True
    with Cons.prems(1) obtain v where "float (str_split l ! 3) = Some v" by auto
    with True IH show ?thesis by simp
  next
    case False
    with IH show ?thesis by (auto simp add: Let_def)
  qed
qed

section \<open>The example logs, evaluated\<close>

lemmas line_defs = header_line_def first_R12_line_def R13_line_def frozen_line_def
  first_energy_line_def second_R12_line_def second_energy_line_def one_field_line_def
  bad_number_line_def short_energy_line_def token_first_line_def
lemmas log_defs = benzene_log_def truncated_log_def garbled_log_def cut_log_def
lemmas string_defs = strip_def isspace_def str_split_def
lemmas float_defs = float_literal_def float_space_def float_number_def take_sign_def lower_def
  isdigit_def digits_value_def digit_value_def

lemma pair_notation_values:
  "pair_notation 1 2 = ''R(1,2)''" "pair_notation 2 3 = ''R(2,3)''" "pair_notation 7 8 = ''R(7,8)''"
  by (simp_all add: pair_notation_def str_def str_nat.simps)

lemma example_files:
  "open_file example_fs (optimization_file ''benzene'') = Inr benzene_log"
  "open_file example_fs (optimization_file ''nitrobenzene'') = Inr truncated_log"
  "open_file example_fs (optimization_file ''ethane'') = Inr garbled_log"
  "open_file example_fs (optimization_file ''methane'') = Inr cut_log"
  by (simp_all add: example_fs_def lab_entries_def optimization_file_def open_file_def
      start_position_def components_def fs_bytes_def)



lemma example_lines:
  "file_lines benzene_log = [header_line, first_R12_line, R13_line, frozen_line,
     first_energy_line, second_R12_line, second_energy_line]"
  "file_lines truncated_log = [first_R12_line, one_field_line]"
  "file_lines garbled_log = [bad_number_line, short_energy_line]"
  "file_lines cut_log = [first_energy_line, short_energy_line]"
  by (simp_all add: log_defs line_defs)

lemma example_fields:
  "str_split first_R12_line = [''1'', ''R(1,2)'', ''='', ''1.510'', ''0.004'', ''0.000'', ''1.510'']"
  "str_split second_R12_line = [''1'', ''R(1,2)'', ''='', ''1.510'', ''0.021'', ''-0.115'', ''1.395'']"
  "str_split first_energy_line = [''Current'', ''energy'', '':'', ''-230.712451'']"
  "str_split second_energy_line = [''Current'', ''energy'', '':'', ''-230.713021'']"
  "str_split bad_number_line = [''Current'', ''energy'', ''='', ''abc'']"
  "str_split short_energy_line = [''Current'', ''energy'', ''='']"
  "str_split (strip one_field_line) = [''xR(1,2)'']"
  "str_split (strip token_first_line) = [''R(1,2)'', ''R(1,2)'', ''='', ''1.510'', ''0.004'', ''0.000'', ''1.510'']"
  by (simp_all add: line_defs string_defs)

lemma example_floats:
  "float_literal ''1.510'' = Some (Finite False 1510 (- 3))"
  "float_literal ''1.395'' = Some (Finite False 1395 (- 3))"
  "float_literal ''-230.712451'' = Some (Finite True 230712451 (- 6))"
  "float_literal ''-230.713021'' = Some (Finite True 230713021 (- 6))"
  "float_literal ''abc'' = None"
  by (simp_all add: float_defs)

lemma benzene_R12_tests:
  "row_test ''R(1,2)'' header_line = Inr False"
  "row_test ''R(1,2)'' first_R12_line = Inr True"
  "row_test ''R(1,2)'' R13_line = Inr False"
  "row_test ''R(1,2)'' frozen_line = Inr False"
  "row_test ''R(1,2)'' first_energy_line = Inr False"
  "row_test ''R(1,2)'' second_R12_line = Inr True"
  "row_test ''R(1,2)'' second_energy_line = Inr False"
  by (simp_all add: row_test_def line_defs string_defs)

lemma benzene_R23_tests:
  "row_test ''R(2,3)'' header_line = Inr False"
  "row_test ''R(2,3)'' first_R12_line = Inr False"
  "row_test ''R(2,3)'' R13_line = Inr False"
  "row_test ''R(2,3)'' frozen_line = Inr False"
  "row_test ''R(2,3)'' first_energy_line = Inr False"
  "row_test ''R(2,3)'' second_R12_line = Inr False"
  "row_test ''R(2,3)'' second_energy_line = Inr False"
  by (simp_all add: row_test_def line_defs string_defs)

lemma benzene_R78_absent:
  "str_find header_line ''R(7,8)'' = - 1"
  "str_find first_R12_line ''R(7,8)'' = - 1"
  "str_find R13_line ''R(7,8)'' = - 1"
  "str_find frozen_line ''R(7,8)'' = - 1"
  "str_find first_energy_line ''R(7,8)'' = - 1"
  "str_find second_R12_line ''R(7,8)'' = - 1"
  "str_find second_energy_line ''R(7,8)'' = - 1"
  by (simp_all add: line_defs)

lemma token_positions:
  "str_find frozen_line ''R(2,3)'' = 21"
  "str_find one_field_line ''R(1,2)'' = 3"
  "str_find token_first_line ''R(1,2)'' = 0"
  by (simp_all add: line_defs)

lemma energy_line_tests:
  "\<not> startswith (strip header_line) ''Current energy''"
  "\<not> startswith (strip first_R12_line) ''Current energy''"
  "\<not> startswith (strip R13_line) ''Current energy''"
  "\<not> startswith (strip frozen_line) ''Current energy''"
  "startswith (strip first_energy_line) ''Current energy''"
  "\<not> startswith (strip second_R12_line) ''Current energy''"
  "startswith (strip second_energy_line) ''Current energy''"
  "\<not> startswith (strip one_field_line) ''Current energy''"
  "startswith (strip bad_number_line) ''Current energy''"
  "startswith (strip short_energy_line) ''Current energy''"
  by (simp_all add: line_defs strip_def isspace_def)

section \<open>The extractors\<close>

subsection \<open>Bond distances of a well-formed log\<close>

text \<open>
  Claim C1. Take a log on which the condition of the comprehension can be evaluated on
  every line, with exactly \<open>N \<ge> 1\<close> lines that match for the pair \<open>(a, b)\<close>, each
  of them with a field 6 that \<^verbatim>\<open>float\<close> accepts, the first of them with a field 3 that
  \<^verbatim>\<open>float\<close> accepts. Then \<^verbatim>\<open>plot_R\<close> returns a sequence of length \<open>N + 1\<close>: the float
  at field 3 of the first matching line, followed by the float at field 6 of every
  matching line, the first included, in file order.
\<close>

theorem plot_R_sequence:
  assumes "open_file fs (optimization_file molecule_name) = Inr log"
    and "\<forall>l\<in>set (file_lines log). row_test (pair_notation a b) l \<noteq> Inl IndexError"
    and "filter (\<lambda>l. row_test (pair_notation a b) l = Inr True) (file_lines log) = first # more"
    and "length (first # more) = N"
    and "\<forall>l\<in>set (first # more). 6 < length (str_split l)"
    and "float (str_split first ! 3) = Some d0"
    and "map (\<lambda>l. float (str_split l ! 6)) (first # more) = map Some ds"
  shows "plot_R float fs molecule_name a b = Inr (d0 # ds) \<and> length (d0 # ds) = N + 1"
proof -
  have rows: "rows_with_R_pairs (pair_notation a b) (file_lines log)
              = Inr (str_split first # map str_split more)"
    using rows_with_R_pairs_filter [OF assms(2)] assms(3) by simp
  have "append_distances float [d0] (map str_split (first # more)) = Inr ([d0] @ ds)"
    using assms(5,7) by (intro append_distances_map) (simp_all add: comp_def)
  moreover have "length ds = N"
    using assms(4,7) by (metis length_map)
  ultimately show ?thesis
    using assms(1,5,6) rows by (simp add: plot_R_def)
qed

text \<open>
  On the example log of two optimization steps the pair \<open>(1, 2)\<close> has two matching
  lines, and three values come back.
\<close>

theorem plot_R_sequence_witness:
  "plot_R float_literal example_fs ''benzene'' 1 2 =
     Inr [Finite False 1510 (- 3), Finite False 1510 (- 3), Finite False 1395 (- 3)] \<and>
   length [Finite False 1510 (- 3), Finite False 1510 (- 3), Finite False 1395 (- 3)] = 2 + 1"
  using plot_R_sequence [where fs = example_fs and molecule_name = "''benzene''"
      and log = benzene_log and a = 1 and b = 2 and first = first_R12_line
      and more = "[second_R12_line]" and N = 2 and float = float_literal
      and ?d0.0 = "Finite False 1510 (- 3)"
      and ds = "[Finite False 1510 (- 3), Finite False 1395 (- 3)]"]
  by (simp add: example_files example_lines pair_notation_values benzene_R12_tests
      example_fields example_floats)

subsection \<open>Energies of a well-formed log\<close>

text \<open>
  Claim C2. Take a log with exactly \<open>M\<close> lines whose stripped content starts with
  \<^verbatim>\<open>Current energy\<close>, each of them with a field 3 that \<^verbatim>\<open>float\<close> accepts. Then
  \<^verbatim>\<open>plot_energy\<close> returns exactly \<open>M\<close> values: the float at field 3 of each of these
  lines, in file order.
\<close>

theorem plot_energy_sequence:
  assumes "open_file fs (optimization_file molecule_name) = Inr log"
    and "filter (\<lambda>l. startswith (strip l) ''Current energy'') (file_lines log) = matching"
    and "length matching = M"
    and "\<forall>l\<in>set matching. 3 < length (str_split l)"
    and "map (\<lambda>l. float (str_split l ! 3)) matching = map Some vs"
  shows "plot_energy float fs molecule_name = Inr vs \<and> length vs = M"
proof -
  have "energy_values float (file_lines log) = Inr vs"
    using assms(2,4,5) by (intro energy_values_map) simp_all
  moreover have "length vs = M"
    using assms(3,5) by (metis length_map)
  ultimately show ?thesis
    using assms(1) by (simp add: plot_energy_def)
qed

theorem plot_energy_sequence_witness:
  "plot_energy float_literal example_fs ''benzene'' =
     Inr [Finite True 230712451 (- 6), Finite True 230713021 (- 6)] \<and>
   length [Finite True 230712451 (- 6), Finite True 230713021 (- 6)] = 2"
  using plot_energy_sequence [where fs = example_fs and molecule_name = "''benzene''"
      and log = benzene_log and float = float_literal and M = 2
      and matching = "[first_energy_line, second_energy_line]"
      and vs = "[Finite True 230712451 (- 6), Finite True 230713021 (- 6)]"]
  by (simp add: example_files example_lines energy_line_tests example_fields example_floats)

subsection \<open>Which lines match\<close>

text \<open>
  Claim C3, as amended. The claim lets a line match wherever the token appears in it. The
  code asks more: \<^verbatim>\<open>line.find(pair_notation) > 1\<close>, so the first occurrence of the token
  must be at character index 2 or later. A line matches if and only if its first
  occurrence of the token is at index 2 or later and the stripped line has a second
  whitespace field that starts with the token; a line in which the token appears at index
  0 or 1 is not matched, whatever its second field.
\<close>

theorem row_test_match_iff:
  "(row_test (pair_notation a b) line = Inr True \<longleftrightarrow>
      (\<exists>n\<ge>2. n \<le> length line \<and> startswith (drop n line) (pair_notation a b) \<and>
         (\<forall>m<n. \<not> startswith (drop m line) (pair_notation a b))) \<and>
      1 < length (str_split (strip line)) \<and>
      startswith (str_split (strip line) ! 1) (pair_notation a b)) \<and>
   (startswith line (pair_notation a b) \<or> startswith (drop 1 line) (pair_notation a b)
      \<longrightarrow> row_test (pair_notation a b) line = Inr False)"
proof -
  have "row_test pn line = Inr True \<longleftrightarrow>
          1 < str_find line pn \<and> 1 < length (str_split (strip line)) \<and>
          startswith (str_split (strip line) ! 1) pn" for pn
    by (simp add: row_test_def Let_def)
  moreover have "row_test pn line = Inr False" if "str_find line pn \<le> 1" for pn
    using that by (simp add: row_test_def)
  ultimately show ?thesis
    using str_find_after_one [of line "pair_notation a b"]
      str_find_at_start [of line "pair_notation a b"]
    by blast
qed

text \<open>
  The claim fails on a line that begins with the token: the token appears in the line and
  the second field starts with it, yet the line is not matched.
\<close>

theorem row_test_anywhere_counterexample:
  "startswith token_first_line (pair_notation 1 2) \<and>
   1 < length (str_split (strip token_first_line)) \<and>
   startswith (str_split (strip token_first_line) ! 1) (pair_notation 1 2) \<and>
   row_test (pair_notation 1 2) token_first_line = Inr False"
  by (simp add: pair_notation_values token_positions example_fields row_test_def)
    (simp add: token_first_line_def)

theorem row_test_match_iff_witness:
  "row_test (pair_notation 1 2) first_R12_line = Inr True \<and>
   startswith (drop 4 first_R12_line) (pair_notation 1 2) \<and>
   startswith token_first_line (pair_notation 1 2) \<and>
   row_test (pair_notation 1 2) token_first_line = Inr False"
proof -
  have "startswith token_first_line (pair_notation 1 2)"
    and "startswith (drop 4 first_R12_line) (pair_notation 1 2)"
    by (simp_all add: pair_notation_values token_first_line_def first_R12_line_def)
  with row_test_match_iff [of 1 2 first_R12_line] row_test_match_iff [of 1 2 token_first_line]
  show ?thesis
    by (simp add: pair_notation_values benzene_R12_tests)
qed

subsection \<open>A pair that the log does not mention\<close>

text \<open>
  Claim C4, as amended. The claim promises an empty sequence for a pair whose token
  appears on no line. The code performs no validation of the pair, and the comprehension
  does yield the empty list; but \<^verbatim>\<open>rows_with_R_pairs[0]\<close> then raises IndexError, so
  \<^verbatim>\<open>plot_R\<close> fails with IndexError and returns nothing.
\<close>

theorem plot_R_token_absent:
  assumes "open_file fs (optimization_file molecule_name) = Inr log"
    and "\<forall>l\<in>set (file_lines log). str_find l (pair_notation a b) < 0"
  shows "rows_with_R_pairs (pair_notation a b) (file_lines log) = Inr [] \<and>
         plot_R float fs molecule_name a b = Inl IndexError"
proof -
  from assms(2) have "\<forall>l\<in>set (file_lines log). row_test (pair_notation a b) l = Inr False"
    by (auto simp add: row_test_def)
  then have "rows_with_R_pairs (pair_notation a b) (file_lines log) = Inr []"
    by (rule rows_with_R_pairs_none)
  with assms(1) show ?thesis by (simp add: plot_R_def)
qed

theorem plot_R_empty_counterexample:
  "open_file example_fs (optimization_file ''benzene'') = Inr benzene_log \<and>
   list_all (\<lambda>l. str_find l (pair_notation 7 8) = - 1) (file_lines benzene_log) \<and>
   plot_R float_literal example_fs ''benzene'' 7 8 = Inl IndexError"
  by (simp add: example_files example_lines pair_notation_values benzene_R78_absent
      plot_R_def row_test_def)

theorem plot_R_token_absent_witness:
  "rows_with_R_pairs (pair_notation 7 8) (file_lines benzene_log) = Inr [] \<and>
   plot_R float_literal example_fs ''benzene'' 7 8 = Inl IndexError"
  using plot_R_token_absent [where fs = example_fs and molecule_name = "''benzene''"
      and log = benzene_log and a = 7 and b = 8 and float = float_literal]
  by (simp add: example_files example_lines pair_notation_values benzene_R78_absent)

subsection \<open>No matching line\<close>

text \<open>
  Claim C5. When the file exists and no line matches for the pair, \<^verbatim>\<open>plot_R\<close> fails with
  IndexError: the comprehension yields the empty list and reading its first element
  raises, unless the comprehension itself has already raised IndexError on a line with a
  single field.
\<close>

theorem plot_R_no_match:
  assumes "open_file fs (optimization_file molecule_name) = Inr log"
    and "filter (\<lambda>l. row_test (pair_notation a b) l = Inr True) (file_lines log) = []"
  shows "plot_R float fs molecule_name a b = Inl IndexError \<and>
         (rows_with_R_pairs (pair_notation a b) (file_lines log) = Inr [] \<or>
          rows_with_R_pairs (pair_notation a b) (file_lines log) = Inl IndexError)"
  using assms(1) rows_with_R_pairs_no_match [OF assms(2)]
  by (auto simp add: plot_R_def)

text \<open>
  In the example log the token of the pair \<open>(2, 3)\<close> occurs, on a line whose second
  field is another word; no line matches.
\<close>

theorem plot_R_no_match_witness:
  "1 < str_find frozen_line (pair_notation 2 3) \<and>
   rows_with_R_pairs (pair_notation 2 3) (file_lines benzene_log) = Inr [] \<and>
   plot_R float_literal example_fs ''benzene'' 2 3 = Inl IndexError"
  using plot_R_no_match [where fs = example_fs and molecule_name = "''benzene''"
      and log = benzene_log and a = 2 and b = 3 and float = float_literal]
  by (simp add: example_files example_lines pair_notation_values benzene_R23_tests token_positions)

subsection \<open>No energy line\<close>

text \<open>
  Claim C6. When the file exists and no line's stripped content starts with
  \<^verbatim>\<open>Current energy\<close>, \<^verbatim>\<open>plot_energy\<close> returns the empty sequence and raises nothing.
\<close>

theorem plot_energy_no_match:
  assumes "open_file fs (optimization_file molecule_name) = Inr log"
    and "\<forall>l\<in>set (file_lines log). \<not> startswith (strip l) ''Current energy''"
  shows "plot_energy float fs molecule_name = Inr []"
proof -
  have "energy_values float ls = Inr []" if "\<forall>l\<in>set ls. \<not> startswith (strip l) ''Current energy''" for ls
    using that by (induction ls) simp_all
  with assms show ?thesis by (simp add: plot_energy_def)
qed

theorem plot_energy_no_match_witness:
  "plot_energy float_literal example_fs ''nitrobenzene'' = Inr []"
  using plot_energy_no_match [where fs = example_fs and molecule_name = "''nitrobenzene''"
      and log = truncated_log and float = float_literal]
  by (simp add: example_files example_lines energy_line_tests)

subsection \<open>The scenario of two distance lines\<close>

text \<open>
  Claim C7. For a log whose matching lines for the pair \<open>(1, 2)\<close> are two, with the
  whitespace fields \<^verbatim>\<open>[_, "R(1,2)", _, 1.510, _, _, 1.510]\<close> and
  \<^verbatim>\<open>[_, "R(1,2)", _, _, _, _, 1.395]\<close>, \<^verbatim>\<open>plot_R(1, 2)\<close> returns
  \<^verbatim>\<open>[1.510, 1.510, 1.395]\<close>: with \<open>x\<close> the float of \<^verbatim>\<open>1.510\<close> and \<open>y\<close> the float of
  \<^verbatim>\<open>1.395\<close>, the list \<open>[x, x, y]\<close>.
\<close>

theorem plot_R_scenario:
  assumes "open_file fs (optimization_file molecule_name) = Inr log"
    and "\<forall>l\<in>set (file_lines log). row_test (pair_notation 1 2) l \<noteq> Inl IndexError"
    and "filter (\<lambda>l. row_test (pair_notation 1 2) l = Inr True) (file_lines log) = [l1, l2]"
    and "str_split l1 = [f0, ''R(1,2)'', f2, ''1.510'', f4, f5, ''1.510'']"
    and "str_split l2 = [g0, ''R(1,2)'', g2, g3, g4, g5, ''1.395'']"
    and "float ''1.510'' = Some x" and "float ''1.395'' = Some y"
  shows "plot_R float fs molecule_name 1 2 = Inr [x, x, y]"
proof -
  have "rows_with_R_pairs (pair_notation 1 2) (file_lines log) = Inr [str_split l1, str_split l2]"
    using rows_with_R_pairs_filter [OF assms(2)] assms(3) by simp
  with assms(1,4-) show ?thesis by (simp add: plot_R_def)
qed

theorem plot_R_scenario_witness:
  "plot_R float_literal example_fs ''benzene'' 1 2 =
     Inr [Finite False 1510 (- 3), Finite False 1510 (- 3), Finite False 1395 (- 3)]"
  using plot_R_scenario [where fs = example_fs and molecule_name = "''benzene''"
      and log = benzene_log and ?l1.0 = first_R12_line and ?l2.0 = second_R12_line
      and float = float_literal and x = "Finite False 1510 (- 3)"
      and y = "Finite False 1395 (- 3)"]
  by (simp add: example_files example_lines pair_notation_values benzene_R12_tests
      example_fields example_floats)

subsection \<open>An energy line that is too short\<close>

text \<open>
  Claim C8, as amended. An energy line with fewer than 4 fields makes \<^verbatim>\<open>plot_energy\<close>
  fail with IndexError, provided that \<^verbatim>\<open>float\<close> accepts field 3 of every energy line
  before it that has one. The comprehension converts the lines in file order, so an
  earlier energy line whose field 3 is no number raises ValueError first.
\<close>

theorem plot_energy_short_line:
  assumes "open_file fs (optimization_file molecule_name) = Inr log"
    and "file_lines log = before @ line # after"
    and "\<forall>l\<in>set before. startswith (strip l) ''Current energy'' \<and> 3 < length (str_split l)
             \<longrightarrow> float (str_split l ! 3) \<noteq> None"
    and "startswith (strip line) ''Current energy''" and "length (str_split line) < 4"
  shows "plot_energy float fs molecule_name = Inl IndexError"
  using assms(1,2) energy_values_short_line [OF assms(3-5)]
  by (simp add: plot_energy_def)

text \<open>
  The claim as stated fails on a log whose first energy line carries text in place of
  the number and whose second energy line has three fields: the error is ValueError.
\<close>

theorem plot_energy_short_line_counterexample:
  "open_file example_fs (optimization_file ''ethane'') = Inr garbled_log \<and>
   file_lines garbled_log = [bad_number_line, short_energy_line] \<and>
   startswith (strip short_energy_line) ''Current energy'' \<and>
   length (str_split short_energy_line) < 4 \<and>
   plot_energy float_literal example_fs ''ethane'' = Inl ValueError"
  by (simp add: example_files example_lines energy_line_tests example_fields example_floats
      plot_energy_def)

theorem plot_energy_short_line_witness:
  "plot_energy float_literal example_fs ''methane'' = Inl IndexError"
  using plot_energy_short_line [where fs = example_fs and molecule_name = "''methane''"
      and log = cut_log and before = "[first_energy_line]" and line = short_energy_line
      and after = "[]" and float = float_literal]
  by (simp add: example_files example_lines energy_line_tests example_fields example_floats)

subsection \<open>No file\<close>




subsection \<open>A line with a single field\<close>



end
